theory Spec2Isabelle
  imports Complex_Main "HOL-Library.Word"
begin

section \<open>The simulated course API of \<^verbatim>\<open>src/lib/api.ts\<close>\<close>

text \<open>
  The module is a mock API client over an in-memory array of courses, a generic retry
  wrapper with exponential backoff, five public operations built from both, and a health
  check that races the list operation against a timer. Everything is asynchronous code on
  one thread, so a call is modelled as a function from the state of the module to a result
  and the next state. A thrown error is the \<open>Inl\<close> branch of the result.
\<close>

subsection \<open>Values\<close>

text \<open>
  A JavaScript string is a sequence of UTF-16 code units; \<open>length\<close> counts code units and
  \<open>trim\<close> removes the white space and line terminators of ECMAScript from both ends.
  The messages of the module are built from ASCII literals and decimal numerals only and
  are kept as \<open>string\<close>.
\<close>

type_synonym jsstring = "16 word list"

definition utf16 :: "string \<Rightarrow> jsstring" where
  "utf16 s = map (\<lambda>c. of_nat (of_char c)) s"

definition isWhiteSpace :: "16 word \<Rightarrow> bool" where
  "isWhiteSpace u \<longleftrightarrow>
     u \<in> {0x0009, 0x000A, 0x000B, 0x000C, 0x000D, 0x0020, 0x00A0, 0x1680,
          0x2000, 0x2001, 0x2002, 0x2003, 0x2004, 0x2005, 0x2006, 0x2007,
          0x2008, 0x2009, 0x200A, 0x2028, 0x2029, 0x202F, 0x205F, 0x3000, 0xFEFF}"

definition trim :: "jsstring \<Rightarrow> jsstring" where
  "trim s = rev (dropWhile isWhiteSpace (rev (dropWhile isWhiteSpace s)))"

text \<open>
  Identifiers and counts are JavaScript numbers, that is IEEE doubles. The model has the
  integers among them and \<open>-Infinity\<close>, which \<open>Math.max()\<close> of no arguments is.
  \<open>Num i\<close> stands for a number only when \<open>i\<close> is a double. Fractions, \<open>+Infinity\<close> and
  \<open>NaN\<close>, which a caller of the public update can store as an identifier, are not
  modelled: the properties below say nothing of a store that holds one.
\<close>

datatype number = NegInfinity | Num int

fun num_max :: "number \<Rightarrow> number \<Rightarrow> number" where
  "num_max NegInfinity y = y"
| "num_max (Num a) NegInfinity = Num a"
| "num_max (Num a) (Num b) = Num (max a b)"

definition Math_max :: "number list \<Rightarrow> number" where
  "Math_max xs = foldr num_max xs NegInfinity"

text \<open>
  The double nearest to an integer. Every integer of magnitude up to \<open>2 ^ 53\<close> is a
  double. A larger one has more than 53 binary digits and lies between two neighbouring
  multiples of \<open>2 ^ (n - 53)\<close>, where \<open>n\<close> is the number of its digits; the nearer one is
  taken, and of two equally near ones the even multiple. (Past the largest double, near
  \<open>2 ^ 1024\<close>, the nearest number is \<open>Infinity\<close>; a double plus one is never that large.)
\<close>

function bitlen :: "int \<Rightarrow> nat" where
  "bitlen n = (if n \<le> 0 then 0 else Suc (bitlen (n div 2)))"
  by pat_completeness auto
termination
  by (relation "measure nat") auto

declare bitlen.simps [simp del]

definition round_double :: "int \<Rightarrow> int" where
  "round_double x =
     (if \<bar>x\<bar> \<le> 2 ^ 53 then x
      else
        let u = 2 ^ (bitlen \<bar>x\<bar> - 53);
            q = x div u;
            r = x mod u
        in if 2 * r < u then q * u
           else if u < 2 * r then (q + 1) * u
           else if even q then q * u
           else (q + 1) * u)"

text \<open>\<open>x + 1\<close>: the sum is rounded to a double, so \<open>2 ^ 53 + 1\<close> is \<open>2 ^ 53\<close>.\<close>

fun plus_one :: "number \<Rightarrow> number" where
  "plus_one NegInfinity = NegInfinity"
| "plus_one (Num a) = Num (round_double (a + 1))"

definition digit :: "nat \<Rightarrow> char" where
  "digit n = ''0123456789'' ! n"

text \<open>The decimal numeral of a natural number, most significant digit first.\<close>

function decimal :: "nat \<Rightarrow> string" where
  "decimal n = (if 10 \<le> n then decimal (n div 10) else []) @ [digit (n mod 10)]"
  by pat_completeness auto
termination
  by (relation "measure (\<lambda>n. n)") auto

declare decimal.simps [simp del]

text \<open>
  The text a template literal puts for a number: the decimal numeral with the fewest
  significant digits that still denotes the same double, filled up with zeros, and in
  exponent notation from \<open>10 ^ 21\<close> on. For \<open>k = 1, 2, ...\<close> the two neighbours of the
  number with \<open>k\<close> significant digits are tried, and of those that round to the number the
  nearer one is taken (the even one of two equally near). Seventeen digits always suffice
  for a double. An integer of magnitude up to \<open>2 ^ 53\<close> is printed digit by digit.
\<close>

definition significant :: "int \<Rightarrow> nat \<Rightarrow> int option" where
  "significant m k =
     (let u = 10 ^ (length (decimal (nat m)) - k);
          q = m div u;
          lo = q * u;
          hi = lo + u;
          lo_ok = (round_double lo = m);
          hi_ok = (round_double hi = m)
      in if lo_ok \<and> hi_ok then
           (if m - lo < hi - m then Some lo
            else if hi - m < m - lo then Some hi
            else if even q then Some lo else Some hi)
         else if lo_ok then Some lo
         else if hi_ok then Some hi
         else None)"

fun shortest :: "int \<Rightarrow> nat list \<Rightarrow> int" where
  "shortest m [] = m"
| "shortest m (k # ks) = (case significant m k of Some c \<Rightarrow> c | None \<Rightarrow> shortest m ks)"

definition exponent_form :: "int \<Rightarrow> string" where
  "exponent_form c =
     (let ds = decimal (nat c);
          sig = rev (dropWhile (\<lambda>d. d = CHR ''0'') (rev ds))
      in hd sig # (if tl sig = [] then [] else CHR ''.'' # tl sig)
         @ ''e+'' @ decimal (length ds - 1))"

text \<open>The text for a number that is not negative.\<close>

definition String_magnitude :: "int \<Rightarrow> string" where
  "String_magnitude m =
     (let c = shortest m [1 ..< 18]
      in if c < 10 ^ 21 then decimal (nat c) else exponent_form c)"

fun String_number :: "number \<Rightarrow> string" where
  "String_number NegInfinity = ''-Infinity''"
| "String_number (Num i) =
     (if i < 0 then CHR ''-'' # String_magnitude (- i) else String_magnitude i)"

subsection \<open>Data model\<close>

text \<open>
  \<open>Omit<Course, "id">\<close> is the record of the fields other than the identifier and
  \<open>Course\<close> extends it by \<open>id\<close> (named \<open>id_of\<close> here). An optional field is an
  \<open>option\<close>; \<open>None\<close> is \<open>undefined\<close>.
\<close>

record CourseData =
  name :: jsstring
  description :: "jsstring option"
  duration :: "jsstring option"
  instructor :: "jsstring option"
  enrollmentCount :: "number option"
  isActive :: "bool option"

record Course = CourseData +
  id_of :: number

text \<open>
  \<open>Partial<Course>\<close>: every field may be absent (\<open>None\<close>). A field of \<open>Course\<close> that is
  optional may also be supplied as \<open>undefined\<close> (\<open>Some None\<close>).
\<close>

record PartialCourse =
  new_id :: "number option"
  new_name :: "jsstring option"
  new_description :: "jsstring option option"
  new_duration :: "jsstring option option"
  new_instructor :: "jsstring option option"
  new_enrollmentCount :: "number option option"
  new_isActive :: "bool option option"

text \<open>The response envelope; its wall-clock \<open>timestamp\<close> is left out.\<close>

record 'a ApiResponse =
  data :: 'a
  success :: bool
  message :: string

text \<open>
  What can be thrown: the two error classes of the module, a plain \<open>Error\<close>, and the
  value \<open>undefined\<close> (thrown by \<open>throw lastError!\<close> when no attempt was made).
\<close>

datatype error =
    NetworkError string number
  | ValidationError string
  | Error string
  | Undefined

subsection \<open>State and effects\<close>

text \<open>
  The state holds the array of the singleton client, the source of \<open>Math.random()\<close>
  (the sequence of its results and how many were drawn), and the timers awaited so far,
  in order, each with the time it took: the simulated latency of a client call and the
  wait of the retry wrapper before the next attempt. Console output is not modelled.
\<close>

datatype event = NetworkDelay nat | Backoff nat

record world =
  courses :: "Course list"
  randoms :: "nat \<Rightarrow> rat"
  drawn :: nat
  trace :: "event list"

type_synonym 'a async = "world \<Rightarrow> (error + 'a) \<times> world"

text \<open>
  The time a timer of \<open>setTimeout\<close> takes. The timer keeps its delay in 32 bits: a
  delay of up to 2147483647 ms is waited in full, and a larger one is not waited at all,
  the timer firing after about one millisecond.
\<close>

definition timer_delay :: "nat \<Rightarrow> nat" where
  "timer_delay ms = (if 2147483647 < int ms then 1 else ms)"

definition simulateNetworkDelay :: "nat \<Rightarrow> world \<Rightarrow> world" where
  "simulateNetworkDelay ms s = s\<lparr>trace := trace s @ [NetworkDelay (timer_delay ms)]\<rparr>"

definition backoff_wait :: "nat \<Rightarrow> world \<Rightarrow> world" where
  "backoff_wait ms s = s\<lparr>trace := trace s @ [Backoff (timer_delay ms)]\<rparr>"

definition Math_random :: "world \<Rightarrow> rat \<times> world" where
  "Math_random s = (randoms s (drawn s), s\<lparr>drawn := Suc (drawn s)\<rparr>)"

fun duration_ms :: "event \<Rightarrow> nat" where
  "duration_ms (NetworkDelay ms) = ms"
| "duration_ms (Backoff ms) = ms"

definition elapsed :: "world \<Rightarrow> nat" where
  "elapsed s = sum_list (map duration_ms (trace s))"

subsection \<open>Configuration and the retry wrapper\<close>

definition retryAttempts :: nat where
  "retryAttempts = 3"

definition retryDelay :: nat where
  "retryDelay = 1000"

text \<open>
  The loop of \<open>withRetry\<close>, from the value of \<open>attempt\<close> on. \<open>lastError\<close> is
  \<open>None\<close> while nothing was caught.
\<close>

function withRetry_loop ::
  "'a async \<Rightarrow> nat \<Rightarrow> nat \<Rightarrow> nat \<Rightarrow> error option \<Rightarrow> 'a async" where
  "withRetry_loop operation maxAttempts delay attempt lastError s =
     (if attempt \<le> maxAttempts then
        (case operation s of
           (Inr v, s1) \<Rightarrow> (Inr v, s1)
         | (Inl e, s1) \<Rightarrow>
             if attempt = maxAttempts then (Inl e, s1)
             else withRetry_loop operation maxAttempts delay (attempt + 1) (Some e)
                    (backoff_wait (delay * 2 ^ (attempt - 1)) s1))
      else (Inl (case lastError of None \<Rightarrow> Undefined | Some e \<Rightarrow> e), s))"
  by pat_completeness auto
termination
  by (relation "measure (\<lambda>(operation, maxAttempts, delay, attempt, lastError, s).
        maxAttempts + 1 - attempt)") auto

declare withRetry_loop.simps [simp del]

definition withRetry :: "'a async \<Rightarrow> nat \<Rightarrow> nat \<Rightarrow> 'a async" where
  "withRetry operation maxAttempts delay s =
     withRetry_loop operation maxAttempts delay 1 None s"

subsection \<open>The mock client\<close>

text \<open>The array a new \<open>MockApiClient\<close> starts with.\<close>

definition seed_courses :: "Course list" where
  "seed_courses =
     [\<lparr>name = utf16 ''HTML Basics'',
       description = Some (utf16 ''Learn the fundamentals of HTML markup language''),
       duration = Some (utf16 ''4 weeks''), instructor = Some (utf16 ''Sarah Johnson''),
       enrollmentCount = Some (Num 156), isActive = Some True, id_of = Num 1\<rparr>,
      \<lparr>name = utf16 ''CSS Mastery'',
       description = Some (utf16 ''Master CSS styling and responsive design''),
       duration = Some (utf16 ''6 weeks''), instructor = Some (utf16 ''Mike Chen''),
       enrollmentCount = Some (Num 203), isActive = Some True, id_of = Num 2\<rparr>,
      \<lparr>name = utf16 ''JavaScript Pro'',
       description = Some (utf16 ''Advanced JavaScript concepts and ES6+ features''),
       duration = Some (utf16 ''8 weeks''), instructor = Some (utf16 ''Alex Rodriguez''),
       enrollmentCount = Some (Num 189), isActive = Some True, id_of = Num 3\<rparr>,
      \<lparr>name = utf16 ''React In Depth'',
       description = Some (utf16 ''Build modern web applications with React''),
       duration = Some (utf16 ''10 weeks''), instructor = Some (utf16 ''Emily Davis''),
       enrollmentCount = Some (Num 245), isActive = Some True, id_of = Num 4\<rparr>,
      \<lparr>name = utf16 ''Node.js Backend'',
       description = Some (utf16 ''Server-side development with Node.js and Express''),
       duration = Some (utf16 ''8 weeks''), instructor = Some (utf16 ''David Kim''),
       enrollmentCount = Some (Num 134), isActive = Some True, id_of = Num 5\<rparr>]"

definition initial_world :: "(nat \<Rightarrow> rat) \<Rightarrow> world" where
  "initial_world rs = \<lparr>courses = seed_courses, randoms = rs, drawn = 0, trace = []\<rparr>"

text \<open>\<open>Array.prototype.findIndex\<close>; \<open>None\<close> stands for the result \<open>-1\<close>.\<close>

fun findIndex :: "('a \<Rightarrow> bool) \<Rightarrow> 'a list \<Rightarrow> nat option" where
  "findIndex P [] = None"
| "findIndex P (x # xs) = (if P x then Some 0 else map_option Suc (findIndex P xs))"

definition not_found :: "number \<Rightarrow> error" where
  "not_found i = NetworkError (''Course with ID '' @ String_number i @ '' not found'') (Num 404)"

definition fetchCourses :: "Course list ApiResponse async" where
  "fetchCourses s =
     (let s1 = simulateNetworkDelay 800 s;
          (r1, s2) = Math_random s1
      in if r1 < 1 / 10 then (Inl (NetworkError ''Service temporarily unavailable'' (Num 503)), s2)
         else
           let (r2, s3) = Math_random s2
           in if r2 < 1 / 20 then (Inl (ValidationError ''Invalid request parameters''), s3)
              else (Inr \<lparr>data = filter (\<lambda>course. isActive course = Some True) (courses s3),
                         success = True,
                         message = ''Courses fetched successfully''\<rparr>, s3))"

definition fetchCourseById :: "number \<Rightarrow> Course ApiResponse async" where
  "fetchCourseById i s =
     (let s1 = simulateNetworkDelay 400 s
      in case find (\<lambda>c. id_of c = i \<and> isActive c = Some True) (courses s1) of
           None \<Rightarrow> (Inl (not_found i), s1)
         | Some course \<Rightarrow>
             (Inr \<lparr>data = course, success = True,
                   message = ''Course fetched successfully''\<rparr>, s1))"

definition apiClient_createCourse :: "CourseData \<Rightarrow> Course ApiResponse async" where
  "apiClient_createCourse courseData s =
     (let s1 = simulateNetworkDelay 1200 s
      in if name courseData = [] \<or> length (trim (name courseData)) < 3
         then (Inl (ValidationError ''Course name must be at least 3 characters long''), s1)
         else
           let newCourse =
                 \<lparr>name = name courseData, description = description courseData,
                  duration = duration courseData, instructor = instructor courseData,
                  enrollmentCount = Some (Num 0), isActive = Some True,
                  id_of = plus_one (Math_max (map id_of (courses s1)))\<rparr>
           in (Inr \<lparr>data = newCourse, success = True,
                    message = ''Course created successfully''\<rparr>,
               s1\<lparr>courses := courses s1 @ [newCourse]\<rparr>))"

text \<open>The object spread \<open>{ ...course, ...updates }\<close>: a supplied field replaces the old one.\<close>

definition spread :: "Course \<Rightarrow> PartialCourse \<Rightarrow> Course" where
  "spread c u =
     \<lparr>name = (case new_name u of None \<Rightarrow> name c | Some v \<Rightarrow> v),
      description = (case new_description u of None \<Rightarrow> description c | Some v \<Rightarrow> v),
      duration = (case new_duration u of None \<Rightarrow> duration c | Some v \<Rightarrow> v),
      instructor = (case new_instructor u of None \<Rightarrow> instructor c | Some v \<Rightarrow> v),
      enrollmentCount =
        (case new_enrollmentCount u of None \<Rightarrow> enrollmentCount c | Some v \<Rightarrow> v),
      isActive = (case new_isActive u of None \<Rightarrow> isActive c | Some v \<Rightarrow> v),
      id_of = (case new_id u of None \<Rightarrow> id_of c | Some v \<Rightarrow> v)\<rparr>"

definition apiClient_updateCourse :: "number \<Rightarrow> PartialCourse \<Rightarrow> Course ApiResponse async" where
  "apiClient_updateCourse i updates s =
     (let s1 = simulateNetworkDelay 900 s
      in case findIndex (\<lambda>c. id_of c = i) (courses s1) of
           None \<Rightarrow> (Inl (not_found i), s1)
         | Some courseIndex \<Rightarrow>
             let s2 = s1\<lparr>courses :=
                        (courses s1)[courseIndex := spread (courses s1 ! courseIndex) updates]\<rparr>
             in (Inr \<lparr>data = courses s2 ! courseIndex, success = True,
                      message = ''Course updated successfully''\<rparr>, s2))"

definition apiClient_deleteCourse :: "number \<Rightarrow> bool ApiResponse async" where
  "apiClient_deleteCourse i s =
     (let s1 = simulateNetworkDelay 600 s
      in case findIndex (\<lambda>c. id_of c = i) (courses s1) of
           None \<Rightarrow> (Inl (not_found i), s1)
         | Some courseIndex \<Rightarrow>
             (Inr \<lparr>data = True, success = True,
                   message = ''Course deleted successfully''\<rparr>,
              s1\<lparr>courses :=
                   (courses s1)[courseIndex := (courses s1 ! courseIndex)\<lparr>isActive := Some False\<rparr>]\<rparr>))"

subsection \<open>The public operations\<close>

definition coursesApi_getCourses :: "Course list async" where
  "coursesApi_getCourses s =
     (case withRetry fetchCourses retryAttempts retryDelay s of
        (Inr response, s') \<Rightarrow> (Inr (data response), s')
      | (Inl e, s') \<Rightarrow>
          (Inl (case e of
                  NetworkError m status \<Rightarrow>
                    Error (''Network error: '' @ m @ '' (Status: '' @ String_number status @ '')'')
                | ValidationError m \<Rightarrow> Error (''Validation error: '' @ m)
                | _ \<Rightarrow> Error ''An unexpected error occurred while fetching courses''), s'))"

fun is_NetworkError :: "error \<Rightarrow> bool" where
  "is_NetworkError (NetworkError m status) = True"
| "is_NetworkError _ = False"

fun is_ValidationError :: "error \<Rightarrow> bool" where
  "is_ValidationError (ValidationError m) = True"
| "is_ValidationError _ = False"

definition coursesApi_getCourse :: "number \<Rightarrow> Course async" where
  "coursesApi_getCourse i s =
     (case withRetry (fetchCourseById i) retryAttempts retryDelay s of
        (Inr response, s') \<Rightarrow> (Inr (data response), s')
      | (Inl e, s') \<Rightarrow>
          (Inl (if is_NetworkError e then e else Error ''Failed to fetch course''), s'))"

definition coursesApi_createCourse :: "CourseData \<Rightarrow> Course async" where
  "coursesApi_createCourse courseData s =
     (case withRetry (apiClient_createCourse courseData) retryAttempts retryDelay s of
        (Inr response, s') \<Rightarrow> (Inr (data response), s')
      | (Inl e, s') \<Rightarrow>
          (Inl (if is_ValidationError e then e else Error ''Failed to create course''), s'))"

definition coursesApi_updateCourse :: "number \<Rightarrow> PartialCourse \<Rightarrow> Course async" where
  "coursesApi_updateCourse i updates s =
     (case withRetry (apiClient_updateCourse i updates) retryAttempts retryDelay s of
        (Inr response, s') \<Rightarrow> (Inr (data response), s')
      | (Inl e, s') \<Rightarrow>
          (Inl (if is_NetworkError e then e else Error ''Failed to update course''), s'))"

definition coursesApi_deleteCourse :: "number \<Rightarrow> bool async" where
  "coursesApi_deleteCourse i s =
     (case withRetry (apiClient_deleteCourse i) retryAttempts retryDelay s of
        (Inr response, s') \<Rightarrow> (Inr (data response), s')
      | (Inl e, s') \<Rightarrow>
          (Inl (if is_NetworkError e then e else Error ''Failed to delete course''), s'))"

subsection \<open>The health check\<close>

text \<open>
  A promise that settles through timers only is given by the time it settles at, counted
  from the call of \<open>checkApiHealth\<close>, and its outcome. \<open>Promise.race\<close> of the list call
  and the timer settles as the one that settles first. The list call settles after every
  timer it awaited, one after the other; the five-second timer was started before any of
  them fired, so it is first when both times are equal (the lemma \<open>getCourses_elapsed\<close>
  below shows that they never are). The list call that lost the race still runs to its end:
  the state returned is the one it leaves.
\<close>

type_synonym 'a promise = "nat \<times> (error + 'a)"

definition Promise_race :: "'a promise \<Rightarrow> 'a promise \<Rightarrow> 'a promise" where
  "Promise_race p timer = (if fst p < fst timer then p else timer)"

definition checkApiHealth :: "world \<Rightarrow> bool \<times> world" where
  "checkApiHealth s =
     (let (r, s') = coursesApi_getCourses s;
          healthCheck = (elapsed s' - elapsed s, r);
          timeout = (5000, Inl (Error ''Health check timeout''))
      in case snd (Promise_race healthCheck timeout) of
           Inr v \<Rightarrow> (True, s')
         | Inl e \<Rightarrow> (False, s'))"

subsection \<open>Notions used to state the properties\<close>

text \<open>
  The state reached from \<open>s\<close> by \<open>k\<close> invocations of the operation, one after the other,
  where the \<open>n\<close>-th invocation is followed by a wait of exactly \<open>delay * 2 ^ (n - 1)\<close>
  milliseconds.
\<close>

definition wait_exactly :: "nat \<Rightarrow> world \<Rightarrow> world" where
  "wait_exactly ms s = s\<lparr>trace := trace s @ [Backoff ms]\<rparr>"

fun after_failures :: "'a async \<Rightarrow> nat \<Rightarrow> nat \<Rightarrow> world \<Rightarrow> world" where
  "after_failures operation delay 0 s = s"
| "after_failures operation delay (Suc k) s =
     wait_exactly (delay * 2 ^ k) (snd (operation (after_failures operation delay k s)))"


subsection \<open>Concrete inputs\<close>

text \<open>A random source that triggers no fault: every sample is one half.\<close>

definition no_faults :: "nat \<Rightarrow> rat" where
  "no_faults n = 1 / 2"

definition short_named :: CourseData where
  "short_named = \<lparr>name = utf16 ''  ab '', description = None, duration = None,
     instructor = None, enrollmentCount = None, isActive = None\<rparr>"

text \<open>A random source whose every sample is below both fault thresholds.\<close>

definition always_low :: "nat \<Rightarrow> rat" where
  "always_low n = 0"

text \<open>Two samples that trigger the network fault, then samples that trigger none.\<close>

definition third_time_lucky :: "nat \<Rightarrow> rat" where
  "third_time_lucky n = (if n < 2 then 0 else 1 / 2)"

text \<open>A creation request that also supplies a count and an inactive flag.\<close>

definition data_engineering :: CourseData where
  "data_engineering = \<lparr>name = utf16 ''Data Engineering'', description = None, duration = None,
     instructor = None, enrollmentCount = Some (Num 99), isActive = Some False\<rparr>"

text \<open>An update that renumbers a course to the identifier 1.\<close>

definition renumber :: PartialCourse where
  "renumber = \<lparr>new_id = Some (Num 1), new_name = None, new_description = None,
     new_duration = None, new_instructor = None, new_enrollmentCount = None,
     new_isActive = None\<rparr>"

text \<open>A second creation request.\<close>

definition machine_learning :: CourseData where
  "machine_learning = \<lparr>name = utf16 ''Machine Learning'', description = None,
     duration = Some (utf16 ''12 weeks''), instructor = None, enrollmentCount = None,
     isActive = None\<rparr>"


text \<open>The seeded store after the public update that renumbers course 2 to 1.\<close>

definition renumbered_store :: world where
  "renumbered_store = snd (coursesApi_updateCourse (Num 2) renumber (initial_world no_faults))"



section \<open>Properties\<close>

subsection \<open>The retry loop\<close>

lemma withRetry_loop_last:
  "withRetry_loop operation m d m le s = operation s"
  by (subst withRetry_loop.simps) (simp split: prod.splits sum.splits)

lemma withRetry_loop_step:
  "a < m \<Longrightarrow> withRetry_loop operation m d a le s =
     (case operation s of
        (Inr v, s1) \<Rightarrow> (Inr v, s1)
      | (Inl e, s1) \<Rightarrow>
          withRetry_loop operation m d (Suc a) (Some e) (backoff_wait (d * 2 ^ (a - 1)) s1))"
  by (subst withRetry_loop.simps) (simp split: prod.splits sum.splits)

lemma withRetry_loop_fail_step:
  assumes "a < m" "isl (fst (operation s))"
  shows "withRetry_loop operation m d a le s =
     withRetry_loop operation m d (Suc a) (Some (projl (fst (operation s))))
       (backoff_wait (d * 2 ^ (a - 1)) (snd (operation s)))"
  using assms by (cases "operation s") (auto simp: withRetry_loop_step isl_def)

lemma timer_delay_served [simp]: "ms \<le> 2147483647 \<Longrightarrow> timer_delay ms = ms"
  by (simp add: timer_delay_def)

lemma backoff_wait_served: "ms \<le> 2147483647 \<Longrightarrow> backoff_wait ms s = wait_exactly ms s"
  by (simp add: backoff_wait_def wait_exactly_def)

text \<open>
  While attempts remain, a run of failures leaves the loop at the next value of the
  counter, in the state that the failed invocations and their waits produced.
\<close>

lemma withRetry_failures:
  assumes fails: "\<forall>k<m. isl (fst (operation (after_failures operation d k s)))"
    and served: "\<forall>k. Suc k < m \<longrightarrow> d * 2 ^ k \<le> 2147483647"
    and "j < m"
  shows "\<exists>le. withRetry operation m d s =
           withRetry_loop operation m d (Suc j) le (after_failures operation d j s)"
  using assms(3)
proof (induction j)
  case 0
  show ?case by (auto simp: withRetry_def)
next
  case (Suc j)
  then obtain le where le: "withRetry operation m d s =
      withRetry_loop operation m d (Suc j) le (after_failures operation d j s)"
    by auto
  from Suc.prems fails have failed: "isl (fst (operation (after_failures operation d j s)))"
    by simp
  from Suc.prems served have "d * 2 ^ j \<le> 2147483647"
    by simp
  then have wait: "backoff_wait (d * 2 ^ j) t = wait_exactly (d * 2 ^ j) t" for t
    by (rule backoff_wait_served)
  from Suc.prems have "Suc j < m" by simp
  from withRetry_loop_fail_step [where operation = operation and d = d and le = le,
      OF this failed]
  show ?case
    unfolding le by (auto simp: wait)
qed

text \<open>The configured three attempts, unrolled.\<close>

lemma withRetry_3:
  "withRetry operation 3 d s =
     (case operation s of
        (Inr v, s1) \<Rightarrow> (Inr v, s1)
      | (Inl e, s1) \<Rightarrow>
          (case operation (backoff_wait d s1) of
             (Inr v, s2) \<Rightarrow> (Inr v, s2)
           | (Inl e', s2) \<Rightarrow> operation (backoff_wait (d * 2) s2)))"
proof -
  have first: "withRetry_loop operation 3 d (Suc 0) le t =
      (case operation t of
         (Inr v, s1) \<Rightarrow> (Inr v, s1)
       | (Inl e, s1) \<Rightarrow>
           withRetry_loop operation 3 d (Suc (Suc 0)) (Some e) (backoff_wait d s1))" for le t
    by (subst withRetry_loop.simps) (simp split: prod.splits sum.splits)
  have second: "withRetry_loop operation 3 d (Suc (Suc 0)) le t =
      (case operation t of
         (Inr v, s1) \<Rightarrow> (Inr v, s1)
       | (Inl e, s1) \<Rightarrow>
           withRetry_loop operation 3 d (Suc (Suc (Suc 0))) (Some e)
             (backoff_wait (d * 2) s1))" for le t
    by (subst withRetry_loop.simps) (simp split: prod.splits sum.splits)
  have third: "withRetry_loop operation 3 d (Suc (Suc (Suc 0))) le t = operation t" for le t
    using withRetry_loop_last [of operation 3 d le t] by (simp add: numeral_3_eq_3)
  show ?thesis
    by (simp add: withRetry_def first second third split: prod.splits sum.splits)
qed

lemma createCourse_invalid:
  "name courseData = [] \<or> length (trim (name courseData)) < 3 \<Longrightarrow>
   apiClient_createCourse courseData s =
     (Inl (ValidationError ''Course name must be at least 3 characters long''),
      simulateNetworkDelay 1200 s)"
  by (simp add: apiClient_createCourse_def Let_def)

lemma trim_short_named: "length (trim (name short_named)) = 2"
  by code_simp

lemma fetchCourses_randoms: "fetchCourses t = (r, t') \<Longrightarrow> randoms t' = randoms t"
  by (auto simp: fetchCourses_def Math_random_def simulateNetworkDelay_def timer_delay_def Let_def
      split: if_splits prod.splits)

lemma fetchCourses_always_low:
  "randoms t = always_low \<Longrightarrow>
   fetchCourses t =
     (Inl (NetworkError ''Service temporarily unavailable'' (Num 503)),
      t\<lparr>drawn := Suc (drawn t), trace := trace t @ [NetworkDelay 800]\<rparr>)"
  by (simp add: fetchCourses_def Math_random_def simulateNetworkDelay_def timer_delay_def Let_def
      always_low_def)

text \<open>
  C1 as stated fails for a wait beyond the range of the timer: with a base delay of
  2147483648 ms the wait after the first failed attempt is not served, and the second
  attempt starts after about one millisecond.
\<close>

theorem withRetry_wait_counterexample:
  "trace (snd (withRetry (apiClient_createCourse short_named) 2 2147483648
     (initial_world no_faults))) =
     [NetworkDelay 1200, Backoff 1, NetworkDelay 1200]"
proof -
  have first: "withRetry_loop operation 2 d (Suc 0) le t =
      (case operation t of
         (Inr v, s1) \<Rightarrow> (Inr v, s1)
       | (Inl e, s1) \<Rightarrow>
           withRetry_loop operation 2 d (Suc (Suc 0)) (Some e) (backoff_wait d s1))"
    for operation :: "Course ApiResponse async" and d le t
    by (subst withRetry_loop.simps) (simp split: prod.splits sum.splits)
  have second: "withRetry_loop operation 2 d (Suc (Suc 0)) le t = operation t"
    for operation :: "Course ApiResponse async" and d le t
    using withRetry_loop_last [of operation 2 d le t] by (simp add: numeral_2_eq_2)
  show ?thesis
    by (simp add: withRetry_def first second createCourse_invalid trim_short_named
        simulateNetworkDelay_def timer_delay_def backoff_wait_def initial_world_def)
qed

text \<open>
  C1, amended. When the operation throws at every invocation of the call and every wait
  \<open>baseDelay * 2 ^ (n - 1)\<close> between two attempts is within the range of the timer, at
  most 2147483647 ms, \<open>withRetry\<close> invokes the operation exactly \<open>maxAttempts\<close> times
  (for \<open>maxAttempts \<ge> 1\<close>): the call ends as the invocation number \<open>maxAttempts\<close> ends,
  with the error that invocation throws and in the state it leaves, and that invocation
  starts in the state produced by \<open>maxAttempts - 1\<close> failed invocations, the \<open>n\<close>-th of
  them followed by a wait of exactly \<open>baseDelay * 2 ^ (n - 1)\<close> milliseconds.
\<close>

theorem withRetry_always_failing:
  assumes "1 \<le> maxAttempts"
    and "\<forall>k<maxAttempts. isl (fst (operation (after_failures operation baseDelay k s)))"
    and "\<forall>k. Suc k < maxAttempts \<longrightarrow> baseDelay * 2 ^ k \<le> 2147483647"
  shows "withRetry operation maxAttempts baseDelay s =
           operation (after_failures operation baseDelay (maxAttempts - 1) s)
         \<and> isl (fst (withRetry operation maxAttempts baseDelay s))"
proof -
  from assms(1) have last: "maxAttempts - 1 < maxAttempts" by simp
  from withRetry_failures [OF assms(2) assms(3) last]
  obtain le where "withRetry operation maxAttempts baseDelay s =
      withRetry_loop operation maxAttempts baseDelay (Suc (maxAttempts - 1)) le
        (after_failures operation baseDelay (maxAttempts - 1) s)"
    by blast
  with assms(1) have "withRetry operation maxAttempts baseDelay s =
           operation (after_failures operation baseDelay (maxAttempts - 1) s)"
    by (simp add: withRetry_loop_last)
  with assms(2) last show ?thesis by simp
qed

text \<open>
  Four attempts at the list operation while every sample triggers the network fault, with
  a base delay of 500 ms: four latencies of the client, four samples drawn, and waits of
  500, 1000 and 2000 ms between the attempts.
\<close>

theorem withRetry_always_failing_witness:
  "(1::nat) \<le> 4 \<and>
   isl (fst (fetchCourses (after_failures fetchCourses 500 0 (initial_world always_low)))) \<and>
   isl (fst (fetchCourses (after_failures fetchCourses 500 1 (initial_world always_low)))) \<and>
   isl (fst (fetchCourses (after_failures fetchCourses 500 2 (initial_world always_low)))) \<and>
   isl (fst (fetchCourses (after_failures fetchCourses 500 3 (initial_world always_low)))) \<and>
   (500::nat) * 2 ^ 2 \<le> 2147483647 \<and>
   withRetry fetchCourses 4 500 (initial_world always_low) =
     (Inl (NetworkError ''Service temporarily unavailable'' (Num 503)),
      (initial_world always_low)\<lparr>drawn := 4, trace :=
         [NetworkDelay 800, Backoff 500, NetworkDelay 800, Backoff 1000,
          NetworkDelay 800, Backoff 2000, NetworkDelay 800]\<rparr>)"
proof -
  let ?s = "initial_world always_low"
  have low: "randoms (after_failures fetchCourses 500 k ?s) = always_low" for k
  proof (induction k)
    case 0
    show ?case by (simp add: initial_world_def)
  next
    case (Suc k)
    then show ?case
      by (simp add: fetchCourses_always_low wait_exactly_def)
  qed
  have fails: "\<forall>k<4. isl (fst (fetchCourses (after_failures fetchCourses 500 k ?s)))"
    by (simp add: fetchCourses_always_low [OF low])
  have served: "\<forall>k. Suc k < 4 \<longrightarrow> (500::nat) * 2 ^ k \<le> 2147483647"
  proof (intro allI impI)
    fix k :: nat
    assume "Suc k < 4"
    then have "k \<le> 2" by simp
    then have "(2::nat) ^ k \<le> 2 ^ 2" by (intro power_increasing) simp_all
    then show "(500::nat) * 2 ^ k \<le> 2147483647" by simp
  qed
  have start: "randoms ?s = always_low" "drawn ?s = 0" "trace ?s = []"
    by (simp_all add: initial_world_def)
  have run: "after_failures fetchCourses 500 (Suc (Suc (Suc 0))) ?s =
      ?s\<lparr>drawn := 3, trace :=
         [NetworkDelay 800, Backoff 500, NetworkDelay 800, Backoff 1000,
          NetworkDelay 800, Backoff 2000]\<rparr>"
    by (simp add: fetchCourses_always_low wait_exactly_def initial_world_def)
  have "withRetry fetchCourses 4 500 ?s =
     (Inl (NetworkError ''Service temporarily unavailable'' (Num 503)),
      ?s\<lparr>drawn := 4, trace :=
         [NetworkDelay 800, Backoff 500, NetworkDelay 800, Backoff 1000,
          NetworkDelay 800, Backoff 2000, NetworkDelay 800]\<rparr>)"
    using withRetry_always_failing [OF _ fails served]
    by (simp add: numeral_3_eq_3 run fetchCourses_always_low start
        del: after_failures.simps)
  moreover from fails
  have "isl (fst (fetchCourses (after_failures fetchCourses 500 0 ?s)))"
    "isl (fst (fetchCourses (after_failures fetchCourses 500 1 ?s)))"
    "isl (fst (fetchCourses (after_failures fetchCourses 500 2 ?s)))"
    "isl (fst (fetchCourses (after_failures fetchCourses 500 3 ?s)))"
    by (simp_all del: after_failures.simps)
  ultimately show ?thesis by (simp del: after_failures.simps)
qed

text \<open>
  C2. The retry wrapper does not look at the kind of error. A public \<open>createCourse\<close>
  with a name whose trimmed length is below 3 fails with the validation error at every
  attempt; the client operation is invoked three times, the configured maximum (three
  latencies of 1200 ms, with waits of 1000 and 2000 ms between them), the store is not
  touched, and the caller gets the validation error.
\<close>

theorem createCourse_short_name:
  assumes "length (trim (name courseData)) < 3"
  shows "(\<forall>t. apiClient_createCourse courseData t =
            (Inl (ValidationError ''Course name must be at least 3 characters long''),
             simulateNetworkDelay 1200 t))
         \<and> coursesApi_createCourse courseData s =
            (Inl (ValidationError ''Course name must be at least 3 characters long''),
             s\<lparr>trace := trace s @
                [NetworkDelay 1200, Backoff 1000, NetworkDelay 1200, Backoff 2000,
                 NetworkDelay 1200]\<rparr>)"
  using assms
  by (simp add: coursesApi_createCourse_def retryAttempts_def retryDelay_def withRetry_3
      createCourse_invalid simulateNetworkDelay_def timer_delay_def backoff_wait_def)

theorem createCourse_short_name_witness:
  "length (trim (name short_named)) < 3 \<and>
   fst (coursesApi_createCourse short_named (initial_world no_faults)) =
     Inl (ValidationError ''Course name must be at least 3 characters long'') \<and>
   trace (snd (coursesApi_createCourse short_named (initial_world no_faults))) =
     [NetworkDelay 1200, Backoff 1000, NetworkDelay 1200, Backoff 2000, NetworkDelay 1200] \<and>
   courses (snd (coursesApi_createCourse short_named (initial_world no_faults))) = seed_courses"
proof -
  have short: "length (trim (name short_named)) < 3"
    by (simp add: trim_short_named)
  show ?thesis
    using short createCourse_short_name [OF short, of "initial_world no_faults"]
    by (simp add: initial_world_def)
qed

text \<open>
  With at least one attempt left, whatever the loop returns is what some invocation of the
  operation returned, and an invariant of the operation and of the waits holds where that
  invocation started.
\<close>

lemma withRetry_loop_result:
  assumes inv: "\<And>t r t'. I t \<Longrightarrow> operation t = (r, t') \<Longrightarrow> I t'"
    and wait: "\<And>t ms. I t \<Longrightarrow> I (backoff_wait ms t)"
  shows "I s \<Longrightarrow> a \<le> m \<Longrightarrow> withRetry_loop operation m d a le s = (r, s') \<Longrightarrow>
         \<exists>t. I t \<and> operation t = (r, s')"
proof (induction "m - a" arbitrary: a le s)
  case 0
  then have "a = m" by simp
  with "0.prems"(1,3) show ?case
    by (auto simp: withRetry_loop_last)
next
  case (Suc k)
  then have less: "a < m" by simp
  obtain r1 s1 where op: "operation s = (r1, s1)" by (cases "operation s")
  show ?case
  proof (cases r1)
    case (Inr v)
    with op less Suc.prems(1,3) show ?thesis
      by (auto simp: withRetry_loop_step)
  next
    case (Inl e)
    with op less Suc.prems(3)
    have rec: "withRetry_loop operation m d (Suc a) (Some e)
                 (backoff_wait (d * 2 ^ (a - 1)) s1) = (r, s')"
      by (simp add: withRetry_loop_step)
    have "I (backoff_wait (d * 2 ^ (a - 1)) s1)"
      using Suc.prems(1) op inv wait by blast
    moreover have "k = m - Suc a" "Suc a \<le> m"
      using Suc.hyps(2) less by simp_all
    ultimately show ?thesis
      using Suc.hyps(1) rec by blast
  qed
qed

lemma withRetry_result:
  assumes inv: "\<And>t r t'. I t \<Longrightarrow> operation t = (r, t') \<Longrightarrow> I t'"
    and wait: "\<And>t ms. I t \<Longrightarrow> I (backoff_wait ms t)"
    and start: "I s" "1 \<le> m" "withRetry operation m d s = (r, s')"
  shows "\<exists>t. I t \<and> operation t = (r, s')"
proof (rule withRetry_loop_result [where I = I and operation = operation])
  show "I t \<Longrightarrow> operation t = (r, t') \<Longrightarrow> I t'" for t r t'
    by (rule inv)
  show "I t \<Longrightarrow> I (backoff_wait ms t)" for t ms
    by (rule wait)
  show "I s" by (rule start(1))
  show "1 \<le> m" by (rule start(2))
  show "withRetry_loop operation m d 1 None s = (r, s')"
    using start(3) by (simp add: withRetry_def)
qed

subsection \<open>The list operation\<close>

lemma fetchCourses_eq:
  "fetchCourses s =
     (if randoms s (drawn s) < 1 / 10
      then (Inl (NetworkError ''Service temporarily unavailable'' (Num 503)),
            (simulateNetworkDelay 800 s)\<lparr>drawn := drawn s + 1\<rparr>)
      else if randoms s (drawn s + 1) < 1 / 20
      then (Inl (ValidationError ''Invalid request parameters''),
            (simulateNetworkDelay 800 s)\<lparr>drawn := drawn s + 2\<rparr>)
      else (Inr \<lparr>data = filter (\<lambda>course. isActive course = Some True) (courses s),
                 success = True, message = ''Courses fetched successfully''\<rparr>,
            (simulateNetworkDelay 800 s)\<lparr>drawn := drawn s + 2\<rparr>))"
  by (simp add: fetchCourses_def Math_random_def simulateNetworkDelay_def timer_delay_def Let_def)

lemma fetchCourses_courses: "fetchCourses t = (r, t') \<Longrightarrow> courses t' = courses t"
  by (auto simp: fetchCourses_eq simulateNetworkDelay_def timer_delay_def split: if_splits)

lemma backoff_wait_courses [simp]: "courses (backoff_wait ms t) = courses t"
  by (simp add: backoff_wait_def)

lemma fetchCourses_data:
  "fetchCourses t = (Inr response, t') \<Longrightarrow>
   data response = filter (\<lambda>course. isActive course = Some True) (courses t)"
  by (auto simp: fetchCourses_eq split: if_splits)

lemma getCourses_success:
  assumes "coursesApi_getCourses s = (Inr cs, s')"
  shows "cs = filter (\<lambda>course. isActive course = Some True) (courses s) \<and> courses s' = courses s"
proof -
  from assms obtain response where
    retry: "withRetry fetchCourses retryAttempts retryDelay s = (Inr response, s')"
    and cs: "cs = data response"
    by (auto simp: coursesApi_getCourses_def split: prod.splits sum.splits)
  have "\<exists>t. courses t = courses s \<and> fetchCourses t = (Inr response, s')"
    by (rule withRetry_result [where I = "\<lambda>t. courses t = courses s", OF _ _ _ _ retry])
       (auto simp: retryAttempts_def dest: fetchCourses_courses)
  then obtain t where t: "courses t = courses s" "fetchCourses t = (Inr response, s')"
    by blast
  from fetchCourses_data [OF t(2)] fetchCourses_courses [OF t(2)] t(1) cs
  show ?thesis by auto
qed



subsection \<open>The health check\<close>

lemma fetchCourses_trace:
  "fetchCourses t = (r, t') \<Longrightarrow> trace t' = trace t @ [NetworkDelay 800]"
  by (auto simp: fetchCourses_eq simulateNetworkDelay_def timer_delay_def split: if_splits)

lemma backoff_wait_trace [simp]:
  "trace (backoff_wait ms t) = trace t @ [Backoff (timer_delay ms)]"
  by (simp add: backoff_wait_def)

text \<open>The list call takes one, two or three attempts: 800, 2600 or 5400 ms.\<close>

lemma getCourses_trace:
  "trace (snd (coursesApi_getCourses s)) = trace s @ [NetworkDelay 800] \<or>
   trace (snd (coursesApi_getCourses s)) =
     trace s @ [NetworkDelay 800, Backoff 1000, NetworkDelay 800] \<or>
   trace (snd (coursesApi_getCourses s)) =
     trace s @ [NetworkDelay 800, Backoff 1000, NetworkDelay 800, Backoff 2000, NetworkDelay 800]"
  by (auto simp: coursesApi_getCourses_def retryAttempts_def retryDelay_def withRetry_3
      split: prod.splits sum.splits dest!: fetchCourses_trace)

lemma getCourses_elapsed:
  "elapsed (snd (coursesApi_getCourses s)) - elapsed s \<in> {800, 2600, 5400}"
  using getCourses_trace [of s] by (auto simp: elapsed_def)

text \<open>
  C3. \<open>checkApiHealth\<close> is a total function into the booleans: it raises nothing.
  Its result is \<open>true\<close> exactly when the list call succeeds and settles before the
  5000 ms timer; it is \<open>false\<close> when the list call fails and when the timer fires
  first, also when the list call succeeds later. The list call settles 800, 2600 or
  5400 ms after the start, never together with the timer.
\<close>

theorem checkApiHealth_race:
  "fst (checkApiHealth s) =
     ((\<exists>cs. fst (coursesApi_getCourses s) = Inr cs)
      \<and> elapsed (snd (coursesApi_getCourses s)) - elapsed s < 5000)
   \<and> snd (checkApiHealth s) = snd (coursesApi_getCourses s)
   \<and> elapsed (snd (coursesApi_getCourses s)) - elapsed s \<in> {800, 2600, 5400}"
proof -
  have race: "fst (checkApiHealth s) =
     ((\<exists>cs. fst (coursesApi_getCourses s) = Inr cs)
      \<and> elapsed (snd (coursesApi_getCourses s)) - elapsed s < 5000)
   \<and> snd (checkApiHealth s) = snd (coursesApi_getCourses s)"
    by (cases "coursesApi_getCourses s"; cases "fst (coursesApi_getCourses s)")
       (auto simp: checkApiHealth_def Promise_race_def Let_def)
  with getCourses_elapsed [of s] show ?thesis
    by blast
qed

text \<open>
  Healthy when the first attempt succeeds; unhealthy when every attempt fails; unhealthy
  when only the third attempt succeeds, 5400 ms after the start.
\<close>

theorem checkApiHealth_race_witness:
  "fst (checkApiHealth (initial_world no_faults)) \<and>
   \<not> fst (checkApiHealth (initial_world always_low)) \<and>
   \<not> fst (checkApiHealth (initial_world third_time_lucky)) \<and>
   fst (coursesApi_getCourses (initial_world third_time_lucky)) = Inr seed_courses \<and>
   elapsed (snd (coursesApi_getCourses (initial_world third_time_lucky))) = 5400"
proof -
  have quick: "coursesApi_getCourses (initial_world no_faults) =
      (Inr seed_courses, (initial_world no_faults)\<lparr>drawn := 2, trace := [NetworkDelay 800]\<rparr>)"
    by (simp add: coursesApi_getCourses_def retryAttempts_def retryDelay_def withRetry_3
        fetchCourses_eq no_faults_def initial_world_def simulateNetworkDelay_def timer_delay_def
        backoff_wait_def seed_courses_def)
  have down: "isl (fst (coursesApi_getCourses (initial_world always_low)))"
    by (simp add: coursesApi_getCourses_def retryAttempts_def retryDelay_def withRetry_3
        fetchCourses_eq always_low_def initial_world_def simulateNetworkDelay_def timer_delay_def
        backoff_wait_def)
  have slow: "coursesApi_getCourses (initial_world third_time_lucky) =
      (Inr seed_courses, (initial_world third_time_lucky)\<lparr>drawn := 4, trace :=
         [NetworkDelay 800, Backoff 1000, NetworkDelay 800, Backoff 2000, NetworkDelay 800]\<rparr>)"
    by (simp add: coursesApi_getCourses_def retryAttempts_def retryDelay_def withRetry_3
        fetchCourses_eq third_time_lucky_def initial_world_def simulateNetworkDelay_def timer_delay_def
        backoff_wait_def seed_courses_def)
  have start: "trace (initial_world rs) = []" for rs
    by (simp add: initial_world_def)
  have "fst (checkApiHealth (initial_world no_faults))"
    using checkApiHealth_race [of "initial_world no_faults"]
    by (simp add: quick start elapsed_def)
  moreover have "\<not> fst (checkApiHealth (initial_world always_low))"
    using checkApiHealth_race [of "initial_world always_low"] down
    by (auto simp: isl_def)
  moreover have "\<not> fst (checkApiHealth (initial_world third_time_lucky))"
    using checkApiHealth_race [of "initial_world third_time_lucky"]
    by (simp add: slow start elapsed_def)
  ultimately show ?thesis
    by (simp add: slow elapsed_def)
qed

subsection \<open>Fault injection\<close>

text \<open>The four other client operations draw no sample and do not depend on the source.\<close>

lemma fetchCourseById_no_random:
  "drawn (snd (fetchCourseById i s)) = drawn s \<and>
   fst (fetchCourseById i (s\<lparr>randoms := rs, drawn := n\<rparr>)) = fst (fetchCourseById i s)"
  by (simp add: fetchCourseById_def simulateNetworkDelay_def timer_delay_def Let_def split: option.splits)

lemma createCourse_no_random:
  "drawn (snd (apiClient_createCourse courseData s)) = drawn s \<and>
   fst (apiClient_createCourse courseData (s\<lparr>randoms := rs, drawn := n\<rparr>)) =
     fst (apiClient_createCourse courseData s)"
  by (simp add: apiClient_createCourse_def simulateNetworkDelay_def timer_delay_def Let_def)

lemma updateCourse_no_random:
  "drawn (snd (apiClient_updateCourse i updates s)) = drawn s \<and>
   fst (apiClient_updateCourse i updates (s\<lparr>randoms := rs, drawn := n\<rparr>)) =
     fst (apiClient_updateCourse i updates s)"
  by (simp add: apiClient_updateCourse_def simulateNetworkDelay_def timer_delay_def Let_def split: option.splits)

lemma deleteCourse_no_random:
  "drawn (snd (apiClient_deleteCourse i s)) = drawn s \<and>
   fst (apiClient_deleteCourse i (s\<lparr>randoms := rs, drawn := n\<rparr>)) =
     fst (apiClient_deleteCourse i s)"
  by (simp add: apiClient_deleteCourse_def simulateNetworkDelay_def timer_delay_def Let_def split: option.splits)

text \<open>
  C4 as stated fails: with a random source that would trigger the network fault at every
  draw, get-by-id and create succeed and draw nothing.
\<close>

theorem fault_injection_counterexample:
  "\<not> isl (fst (fetchCourseById (Num 1) (initial_world always_low))) \<and>
   drawn (snd (fetchCourseById (Num 1) (initial_world always_low))) = 0 \<and>
   \<not> isl (fst (apiClient_createCourse data_engineering (initial_world always_low))) \<and>
   drawn (snd (apiClient_createCourse data_engineering (initial_world always_low))) = 0"
  by code_simp

text \<open>
  C4, amended. Only the list operation injects faults. After its latency of 800 ms and
  before it reads the store it draws a sample and raises the NetworkError with status 503
  when the sample is below 0.10; otherwise it draws a second sample and raises the
  ValidationError when that one is below 0.05; otherwise it answers. The two faults
  exclude each other, the network fault being checked first. Get-by-id, create, update and
  delete draw no sample, and their results are the same for every random source.
\<close>

theorem fault_injection_list_only:
  "fetchCourses s =
     (if randoms s (drawn s) < 1 / 10
      then (Inl (NetworkError ''Service temporarily unavailable'' (Num 503)),
            (simulateNetworkDelay 800 s)\<lparr>drawn := drawn s + 1\<rparr>)
      else if randoms s (drawn s + 1) < 1 / 20
      then (Inl (ValidationError ''Invalid request parameters''),
            (simulateNetworkDelay 800 s)\<lparr>drawn := drawn s + 2\<rparr>)
      else (Inr \<lparr>data = filter (\<lambda>course. isActive course = Some True) (courses s),
                 success = True, message = ''Courses fetched successfully''\<rparr>,
            (simulateNetworkDelay 800 s)\<lparr>drawn := drawn s + 2\<rparr>))
   \<and> drawn (snd (fetchCourseById i s)) = drawn s
   \<and> fst (fetchCourseById i (s\<lparr>randoms := rs, drawn := n\<rparr>)) = fst (fetchCourseById i s)
   \<and> drawn (snd (apiClient_createCourse courseData s)) = drawn s
   \<and> fst (apiClient_createCourse courseData (s\<lparr>randoms := rs, drawn := n\<rparr>)) =
       fst (apiClient_createCourse courseData s)
   \<and> drawn (snd (apiClient_updateCourse i updates s)) = drawn s
   \<and> fst (apiClient_updateCourse i updates (s\<lparr>randoms := rs, drawn := n\<rparr>)) =
       fst (apiClient_updateCourse i updates s)
   \<and> drawn (snd (apiClient_deleteCourse i s)) = drawn s
   \<and> fst (apiClient_deleteCourse i (s\<lparr>randoms := rs, drawn := n\<rparr>)) =
       fst (apiClient_deleteCourse i s)"
  by (simp add: fetchCourses_eq fetchCourseById_no_random createCourse_no_random
      updateCourse_no_random deleteCourse_no_random)

theorem fault_injection_list_only_witness:
  "fst (fetchCourses (initial_world always_low)) =
     Inl (NetworkError ''Service temporarily unavailable'' (Num 503)) \<and>
   drawn (snd (fetchCourses (initial_world always_low))) = 1 \<and>
   trace (snd (fetchCourses (initial_world always_low))) = [NetworkDelay 800] \<and>
   fst (fetchCourseById (Num 1) (initial_world always_low)) =
     fst (fetchCourseById (Num 1) (initial_world no_faults))"
proof -
  have same: "initial_world always_low = (initial_world no_faults)\<lparr>randoms := always_low, drawn := 0\<rparr>"
    by (simp add: initial_world_def)
  have "fetchCourses (initial_world always_low) =
      (Inl (NetworkError ''Service temporarily unavailable'' (Num 503)),
       (simulateNetworkDelay 800 (initial_world always_low))\<lparr>drawn := 1\<rparr>)"
    using fault_injection_list_only [where s = "initial_world always_low"]
    by (simp add: initial_world_def always_low_def)
  moreover have "fst (fetchCourseById (Num 1) (initial_world always_low)) =
     fst (fetchCourseById (Num 1) (initial_world no_faults))"
    unfolding same
    using fault_injection_list_only
      [where s = "initial_world no_faults" and i = "Num 1" and rs = always_low and n = 0]
    by blast
  ultimately show ?thesis
    by (simp add: simulateNetworkDelay_def timer_delay_def initial_world_def)
qed

subsection \<open>Errors at the public boundary\<close>

text \<open>What each client operation can throw.\<close>

lemma fetchCourses_error:
  "fetchCourses t = (Inl e, t') \<Longrightarrow>
   e = NetworkError ''Service temporarily unavailable'' (Num 503) \<or>
   e = ValidationError ''Invalid request parameters''"
  by (auto simp: fetchCourses_eq split: if_splits)

lemma fetchCourseById_error: "fetchCourseById i t = (Inl e, t') \<Longrightarrow> e = not_found i"
  by (auto simp: fetchCourseById_def Let_def split: option.splits)

lemma createCourse_error:
  "apiClient_createCourse courseData t = (Inl e, t') \<Longrightarrow>
   e = ValidationError ''Course name must be at least 3 characters long''"
  by (auto simp: apiClient_createCourse_def Let_def split: if_splits)

lemma updateCourse_error: "apiClient_updateCourse i updates t = (Inl e, t') \<Longrightarrow> e = not_found i"
  by (auto simp: apiClient_updateCourse_def Let_def split: option.splits)

lemma deleteCourse_error: "apiClient_deleteCourse i t = (Inl e, t') \<Longrightarrow> e = not_found i"
  by (auto simp: apiClient_deleteCourse_def Let_def split: option.splits)

text \<open>With the configured three attempts, the wrapper returns what some invocation returned.\<close>

lemma withRetry_configured:
  assumes "withRetry operation retryAttempts retryDelay s = (r, s')"
  shows "\<exists>t. operation t = (r, s')"
  using withRetry_result [where I = "\<lambda>t. True" and operation = operation, OF _ _ _ _ assms]
  by (simp add: retryAttempts_def)

lemma decimal_503: "String_number (Num 503) = ''503''"
  by code_simp

text \<open>
  C5 as stated fails: a failing \<open>getCourse\<close> hands the caller the NetworkError itself,
  not a translated message, and a failing \<open>createCourse\<close> hands over the
  ValidationError itself.
\<close>

theorem error_translation_counterexample:
  "fst (coursesApi_getCourse (Num 9) (initial_world no_faults)) =
     Inl (NetworkError ''Course with ID 9 not found'' (Num 404)) \<and>
   fst (coursesApi_createCourse short_named (initial_world no_faults)) =
     Inl (ValidationError ''Course name must be at least 3 characters long'')"
  by code_simp

text \<open>
  C5, amended. Only \<open>getCourses\<close> translates: its caller gets a plain error whose
  message is the network message with the status code, or the validation message (the
  list operation throws nothing else, so the generic message is never produced). The
  other four operations pass the error of the client through unchanged, with its type:
  \<open>getCourse\<close>, \<open>updateCourse\<close> and \<open>deleteCourse\<close> fail with the not-found
  NetworkError of status 404, and \<open>createCourse\<close> fails with the ValidationError.
\<close>

theorem error_translation:
  "(coursesApi_getCourses s = (Inl e, s') \<longrightarrow>
      (withRetry fetchCourses retryAttempts retryDelay s =
         (Inl (NetworkError ''Service temporarily unavailable'' (Num 503)), s') \<and>
       e = Error ''Network error: Service temporarily unavailable (Status: 503)'') \<or>
      (withRetry fetchCourses retryAttempts retryDelay s =
         (Inl (ValidationError ''Invalid request parameters''), s') \<and>
       e = Error ''Validation error: Invalid request parameters''))
   \<and> (coursesApi_getCourse i s = (Inl e, s') \<longrightarrow>
        e = NetworkError (''Course with ID '' @ String_number i @ '' not found'') (Num 404))
   \<and> (coursesApi_createCourse courseData s = (Inl e, s') \<longrightarrow>
        e = ValidationError ''Course name must be at least 3 characters long'')
   \<and> (coursesApi_updateCourse i updates s = (Inl e, s') \<longrightarrow>
        e = NetworkError (''Course with ID '' @ String_number i @ '' not found'') (Num 404))
   \<and> (coursesApi_deleteCourse i s = (Inl e, s') \<longrightarrow>
        e = NetworkError (''Course with ID '' @ String_number i @ '' not found'') (Num 404))"
proof (intro conjI impI)
  assume "coursesApi_getCourses s = (Inl e, s')"
  then obtain e0 where retry: "withRetry fetchCourses retryAttempts retryDelay s = (Inl e0, s')"
    and e: "e = (case e0 of
                  NetworkError m status \<Rightarrow>
                    Error (''Network error: '' @ m @ '' (Status: '' @ String_number status @ '')'')
                | ValidationError m \<Rightarrow> Error (''Validation error: '' @ m)
                | _ \<Rightarrow> Error ''An unexpected error occurred while fetching courses'')"
    by (auto simp: coursesApi_getCourses_def split: prod.splits sum.splits)
  from withRetry_configured [OF retry] fetchCourses_error
  have "e0 = NetworkError ''Service temporarily unavailable'' (Num 503) \<or>
        e0 = ValidationError ''Invalid request parameters''"
    by blast
  with retry e
  show "(withRetry fetchCourses retryAttempts retryDelay s =
         (Inl (NetworkError ''Service temporarily unavailable'' (Num 503)), s') \<and>
       e = Error ''Network error: Service temporarily unavailable (Status: 503)'') \<or>
      (withRetry fetchCourses retryAttempts retryDelay s =
         (Inl (ValidationError ''Invalid request parameters''), s') \<and>
       e = Error ''Validation error: Invalid request parameters'')"
    by (auto simp: decimal_503 simp del: String_number.simps)
next
  assume "coursesApi_getCourse i s = (Inl e, s')"
  then obtain e0 where retry: "withRetry (fetchCourseById i) retryAttempts retryDelay s = (Inl e0, s')"
    and e: "e = (if is_NetworkError e0 then e0 else Error ''Failed to fetch course'')"
    by (auto simp: coursesApi_getCourse_def split: prod.splits sum.splits)
  from withRetry_configured [OF retry] fetchCourseById_error have "e0 = not_found i"
    by blast
  with e show "e = NetworkError (''Course with ID '' @ String_number i @ '' not found'') (Num 404)"
    by (simp add: not_found_def)
next
  assume "coursesApi_createCourse courseData s = (Inl e, s')"
  then obtain e0 where
    retry: "withRetry (apiClient_createCourse courseData) retryAttempts retryDelay s = (Inl e0, s')"
    and e: "e = (if is_ValidationError e0 then e0 else Error ''Failed to create course'')"
    by (auto simp: coursesApi_createCourse_def split: prod.splits sum.splits)
  from withRetry_configured [OF retry] createCourse_error
  have "e0 = ValidationError ''Course name must be at least 3 characters long''"
    by blast
  with e show "e = ValidationError ''Course name must be at least 3 characters long''"
    by simp
next
  assume "coursesApi_updateCourse i updates s = (Inl e, s')"
  then obtain e0 where
    retry: "withRetry (apiClient_updateCourse i updates) retryAttempts retryDelay s = (Inl e0, s')"
    and e: "e = (if is_NetworkError e0 then e0 else Error ''Failed to update course'')"
    by (auto simp: coursesApi_updateCourse_def split: prod.splits sum.splits)
  from withRetry_configured [OF retry] updateCourse_error have "e0 = not_found i"
    by blast
  with e show "e = NetworkError (''Course with ID '' @ String_number i @ '' not found'') (Num 404)"
    by (simp add: not_found_def)
next
  assume "coursesApi_deleteCourse i s = (Inl e, s')"
  then obtain e0 where
    retry: "withRetry (apiClient_deleteCourse i) retryAttempts retryDelay s = (Inl e0, s')"
    and e: "e = (if is_NetworkError e0 then e0 else Error ''Failed to delete course'')"
    by (auto simp: coursesApi_deleteCourse_def split: prod.splits sum.splits)
  from withRetry_configured [OF retry] deleteCourse_error have "e0 = not_found i"
    by blast
  with e show "e = NetworkError (''Course with ID '' @ String_number i @ '' not found'') (Num 404)"
    by (simp add: not_found_def)
qed


lemma failing_call: "isl (fst p) \<Longrightarrow> \<exists>e s'. p = (Inl e, s')"
  by (cases p) (auto simp: isl_def)

theorem error_translation_witness:
  "fst (coursesApi_getCourses (initial_world always_low)) =
     Inl (Error ''Network error: Service temporarily unavailable (Status: 503)'') \<and>
   fst (coursesApi_getCourse (Num 42) (initial_world no_faults)) =
     Inl (NetworkError ''Course with ID 42 not found'' (Num 404)) \<and>
   fst (coursesApi_createCourse short_named (initial_world always_low)) =
     Inl (ValidationError ''Course name must be at least 3 characters long'') \<and>
   fst (coursesApi_updateCourse (Num 42) renumber (initial_world no_faults)) =
     Inl (NetworkError ''Course with ID 42 not found'' (Num 404)) \<and>
   fst (coursesApi_deleteCourse (Num 42) (initial_world no_faults)) =
     Inl (NetworkError ''Course with ID 42 not found'' (Num 404))"
proof -
  have numeral: "String_number (Num 42) = ''42''"
    by code_simp
  have "isl (fst (coursesApi_getCourses (initial_world always_low)))"
    by code_simp
  then obtain e1 s1 where list: "coursesApi_getCourses (initial_world always_low) = (Inl e1, s1)"
    using failing_call by blast
  have "fst (withRetry fetchCourses retryAttempts retryDelay (initial_world always_low)) \<noteq>
          Inl (ValidationError ''Invalid request parameters'')"
    by code_simp
  with error_translation [where s = "initial_world always_low" and e = e1 and s' = s1,
      THEN conjunct1] list
  have "e1 = Error ''Network error: Service temporarily unavailable (Status: 503)''"
    by auto
  with list have first: "fst (coursesApi_getCourses (initial_world always_low)) =
     Inl (Error ''Network error: Service temporarily unavailable (Status: 503)'')"
    by simp
  have "isl (fst (coursesApi_getCourse (Num 42) (initial_world no_faults)))"
    by code_simp
  then obtain e2 s2 where
    "coursesApi_getCourse (Num 42) (initial_world no_faults) = (Inl e2, s2)"
    using failing_call by blast
  with error_translation [where s = "initial_world no_faults" and i = "Num 42" and e = e2
      and s' = s2, THEN conjunct2, THEN conjunct1]
  have second: "fst (coursesApi_getCourse (Num 42) (initial_world no_faults)) =
     Inl (NetworkError ''Course with ID 42 not found'' (Num 404))"
    by (simp add: numeral del: String_number.simps)
  have "isl (fst (coursesApi_createCourse short_named (initial_world always_low)))"
    by code_simp
  then obtain e3 s3 where
    "coursesApi_createCourse short_named (initial_world always_low) = (Inl e3, s3)"
    using failing_call by blast
  with error_translation [where s = "initial_world always_low" and courseData = short_named
      and e = e3 and s' = s3, THEN conjunct2, THEN conjunct2, THEN conjunct1]
  have third: "fst (coursesApi_createCourse short_named (initial_world always_low)) =
     Inl (ValidationError ''Course name must be at least 3 characters long'')"
    by simp
  have "isl (fst (coursesApi_updateCourse (Num 42) renumber (initial_world no_faults)))"
    by code_simp
  then obtain e4 s4 where
    "coursesApi_updateCourse (Num 42) renumber (initial_world no_faults) = (Inl e4, s4)"
    using failing_call by blast
  with error_translation [where s = "initial_world no_faults" and i = "Num 42"
      and updates = renumber and e = e4 and s' = s4,
      THEN conjunct2, THEN conjunct2, THEN conjunct2, THEN conjunct1]
  have fourth: "fst (coursesApi_updateCourse (Num 42) renumber (initial_world no_faults)) =
     Inl (NetworkError ''Course with ID 42 not found'' (Num 404))"
    by (simp add: numeral del: String_number.simps)
  have "isl (fst (coursesApi_deleteCourse (Num 42) (initial_world no_faults)))"
    by code_simp
  then obtain e5 s5 where
    "coursesApi_deleteCourse (Num 42) (initial_world no_faults) = (Inl e5, s5)"
    using failing_call by blast
  with error_translation [where s = "initial_world no_faults" and i = "Num 42" and e = e5
      and s' = s5, THEN conjunct2, THEN conjunct2, THEN conjunct2, THEN conjunct2]
  have fifth: "fst (coursesApi_deleteCourse (Num 42) (initial_world no_faults)) =
     Inl (NetworkError ''Course with ID 42 not found'' (Num 404))"
    by (simp add: numeral del: String_number.simps)
  from first second third fourth fifth show ?thesis
    by blast
qed

subsection \<open>Creation\<close>





lemma withRetry_first_success:
  "operation s = (Inr v, s') \<Longrightarrow> withRetry operation retryAttempts retryDelay s = (Inr v, s')"
  by (simp add: withRetry_3 retryAttempts_def)

lemma createCourse_valid:
  assumes "name courseData \<noteq> []" "3 \<le> length (trim (name courseData))"
  shows "apiClient_createCourse courseData s =
     (Inr \<lparr>data = \<lparr>name = name courseData, description = description courseData,
                    duration = duration courseData, instructor = instructor courseData,
                    enrollmentCount = Some (Num 0), isActive = Some True,
                    id_of = plus_one (Math_max (map id_of (courses s)))\<rparr>,
           success = True, message = ''Course created successfully''\<rparr>,
      (simulateNetworkDelay 1200 s)\<lparr>courses := courses s @
         [\<lparr>name = name courseData, description = description courseData,
           duration = duration courseData, instructor = instructor courseData,
           enrollmentCount = Some (Num 0), isActive = Some True,
           id_of = plus_one (Math_max (map id_of (courses s)))\<rparr>]\<rparr>)"
  using assms by (simp add: apiClient_createCourse_def simulateNetworkDelay_def timer_delay_def Let_def)

text \<open>
  No operation of the client removes a record, so the store, which starts with five
  records, is never empty.
\<close>

lemma store_keeps_records:
  "length (courses s) \<le> length (courses (snd (fetchCourses s)))"
  "length (courses s) \<le> length (courses (snd (fetchCourseById i s)))"
  "length (courses s) \<le> length (courses (snd (apiClient_createCourse courseData s)))"
  "length (courses s) \<le> length (courses (snd (apiClient_updateCourse i updates s)))"
  "length (courses s) \<le> length (courses (snd (apiClient_deleteCourse i s)))"
  by (simp_all add: fetchCourses_eq fetchCourseById_def apiClient_createCourse_def
      apiClient_updateCourse_def apiClient_deleteCourse_def simulateNetworkDelay_def Let_def
      split: option.splits)





lemma valid_names:
  "name data_engineering \<noteq> []" "3 \<le> length (trim (name data_engineering))"
  "name machine_learning \<noteq> []" "3 \<le> length (trim (name machine_learning))"
  by code_simp+


lemma initial_courses [simp]: "courses (initial_world rs) = seed_courses"
  by (simp add: initial_world_def)


text \<open>
  C10. A creation with a valid name stores and returns a record with
  \<open>enrollmentCount = 0\<close> and \<open>isActive = true\<close> whatever the caller supplied for the
  two fields: the call with other values for them is the same call.
\<close>

theorem createCourse_overrides:
  assumes "name courseData \<noteq> []" "3 \<le> length (trim (name courseData))"
  shows "\<exists>c s'.
     apiClient_createCourse courseData s =
       (Inr \<lparr>data = c, success = True, message = ''Course created successfully''\<rparr>, s')
     \<and> coursesApi_createCourse courseData s = (Inr c, s')
     \<and> enrollmentCount c = Some (Num 0) \<and> isActive c = Some True
     \<and> courses s' = courses s @ [c]
     \<and> apiClient_createCourse (courseData\<lparr>enrollmentCount := n, isActive := a\<rparr>) s =
         apiClient_createCourse courseData s"
proof -
  let ?c = "\<lparr>name = name courseData, description = description courseData,
             duration = duration courseData, instructor = instructor courseData,
             enrollmentCount = Some (Num 0), isActive = Some True,
             id_of = plus_one (Math_max (map id_of (courses s)))\<rparr>"
  let ?s' = "(simulateNetworkDelay 1200 s)\<lparr>courses := courses s @ [?c]\<rparr>"
  have client: "apiClient_createCourse courseData s =
      (Inr \<lparr>data = ?c, success = True, message = ''Course created successfully''\<rparr>, ?s')"
    by (rule createCourse_valid [OF assms])
  have public: "coursesApi_createCourse courseData s = (Inr ?c, ?s')"
    by (simp add: coursesApi_createCourse_def
        withRetry_first_success [where operation = "apiClient_createCourse courseData", OF client])
  have same: "apiClient_createCourse (courseData\<lparr>enrollmentCount := n, isActive := a\<rparr>) s =
         apiClient_createCourse courseData s"
    by (simp add: apiClient_createCourse_def Let_def)
  show ?thesis
    apply (rule exI [of _ ?c], rule exI [of _ ?s'])
    using client public same apply simp
    done
qed

text \<open>A request that asks for a count of 99 and an inactive course.\<close>

theorem createCourse_overrides_witness:
  "name data_engineering \<noteq> [] \<and> 3 \<le> length (trim (name data_engineering)) \<and>
   enrollmentCount data_engineering = Some (Num 99) \<and>
   isActive data_engineering = Some False \<and>
   (\<exists>c s'. coursesApi_createCourse data_engineering (initial_world always_low) = (Inr c, s') \<and>
      enrollmentCount c = Some (Num 0) \<and> isActive c = Some True \<and>
      courses s' = seed_courses @ [c])"
proof -
  have supplied: "enrollmentCount data_engineering = Some (Num 99)"
    "isActive data_engineering = Some False"
    by (simp_all add: data_engineering_def)
  from createCourse_overrides [OF valid_names(1,2), where s = "initial_world always_low"
      and n = None and a = None]
  have "\<exists>c s'. coursesApi_createCourse data_engineering (initial_world always_low) = (Inr c, s') \<and>
      enrollmentCount c = Some (Num 0) \<and> isActive c = Some True \<and>
      courses s' = seed_courses @ [c]"
    by (simp only: initial_courses) blast
  with valid_names(1,2) supplied show ?thesis by blast
qed

subsection \<open>Update\<close>

lemma findIndex_None: "findIndex P xs = None \<longleftrightarrow> (\<forall>x \<in> set xs. \<not> P x)"
  by (induction xs) auto

lemma findIndex_Some:
  "findIndex P xs = Some k \<Longrightarrow> k < length xs \<and> P (xs ! k) \<and> (\<forall>j < k. \<not> P (xs ! j))"
proof (induction xs arbitrary: k)
  case Nil
  then show ?case by simp
next
  case (Cons x xs)
  show ?case
  proof (cases "P x")
    case True
    with Cons.prems show ?thesis by simp
  next
    case False
    with Cons.prems obtain k' where k': "findIndex P xs = Some k'" "k = Suc k'"
      by auto
    from Cons.IH [OF k'(1)] False k'(2) show ?thesis
      by (auto simp: nth_Cons split: nat.splits)
  qed
qed

lemma findIndex_present:
  "(\<exists>x \<in> set xs. P x) \<Longrightarrow> \<exists>k. findIndex P xs = Some k"
  using findIndex_None [of P xs] by (cases "findIndex P xs") auto





lemma seed_index:
  "k < length seed_courses \<Longrightarrow> id_of (seed_courses ! k) = Num (int k + 1)"
  by (auto simp: seed_courses_def nth_Cons less_Suc_eq split: nat.splits)


subsection \<open>Soft deletion\<close>

lemma deleteCourse_missing:
  "i \<notin> set (map id_of (courses s)) \<Longrightarrow>
   apiClient_deleteCourse i s = (Inl (not_found i), simulateNetworkDelay 600 s)"
proof -
  assume "i \<notin> set (map id_of (courses s))"
  then have "findIndex (\<lambda>c. id_of c = i) (courses s) = None"
    by (auto simp: findIndex_None)
  then show ?thesis
    by (simp add: apiClient_deleteCourse_def simulateNetworkDelay_def timer_delay_def Let_def)
qed

lemma deleteCourse_found:
  "findIndex (\<lambda>c. id_of c = i) (courses s) = Some k \<Longrightarrow>
   apiClient_deleteCourse i s =
     (Inr \<lparr>data = True, success = True, message = ''Course deleted successfully''\<rparr>,
      (simulateNetworkDelay 600 s)\<lparr>courses :=
         (courses s)[k := (courses s ! k)\<lparr>isActive := Some False\<rparr>]\<rparr>)"
  by (simp add: apiClient_deleteCourse_def simulateNetworkDelay_def timer_delay_def Let_def)

lemma filter_update_length:
  "k < length xs \<Longrightarrow> P y = P (xs ! k) \<Longrightarrow>
   length (filter P (xs[k := y])) = length (filter P xs)"
proof (induction xs arbitrary: k)
  case Nil
  then show ?case by simp
next
  case (Cons x xs)
  show ?case
  proof (cases k)
    case 0
    with Cons.prems show ?thesis by simp
  next
    case (Suc k')
    with Cons.prems have "length (filter P (xs[k' := y])) = length (filter P xs)"
      by (intro Cons.IH) simp_all
    with Suc show ?thesis by simp
  qed
qed

lemma single_match:
  assumes "length (filter P xs) = 1" "a \<in> set xs" "P a" "b \<in> set xs" "P b"
  shows "a = b"
proof -
  from assms(1) obtain z where z: "filter P xs = [z]"
    by (cases "filter P xs") auto
  from assms(2,3) have "a \<in> set (filter P xs)" by simp
  moreover from assms(4,5) have "b \<in> set (filter P xs)" by simp
  ultimately show ?thesis unfolding z by simp
qed

text \<open>Reading by identifier fails when no active record has the identifier.\<close>

lemma fetchCourseById_inactive:
  assumes "\<forall>c \<in> set (courses t). id_of c = i \<longrightarrow> isActive c \<noteq> Some True"
  shows "fetchCourseById i t = (Inl (not_found i), simulateNetworkDelay 400 t)"
proof -
  from assms have "find (\<lambda>c. id_of c = i \<and> isActive c = Some True) (courses t) = None"
    by (auto simp: find_None_iff)
  then show ?thesis
    by (simp add: fetchCourseById_def simulateNetworkDelay_def timer_delay_def Let_def)
qed

lemma fetchCourseById_courses: "fetchCourseById i t = (r, t') \<Longrightarrow> courses t' = courses t"
  by (auto simp: fetchCourseById_def simulateNetworkDelay_def timer_delay_def Let_def split: option.splits)

lemma getCourse_inactive:
  assumes "\<forall>c \<in> set (courses s). id_of c = i \<longrightarrow> isActive c \<noteq> Some True"
  shows "fst (coursesApi_getCourse i s) = Inl (not_found i)"
proof -
  obtain r s' where retry: "withRetry (fetchCourseById i) retryAttempts retryDelay s = (r, s')"
    by (cases "withRetry (fetchCourseById i) retryAttempts retryDelay s")
  have "\<exists>t. courses t = courses s \<and> fetchCourseById i t = (r, s')"
    by (rule withRetry_result [where I = "\<lambda>t. courses t = courses s", OF _ _ _ _ retry])
       (auto simp: retryAttempts_def dest: fetchCourseById_courses)
  then obtain t where t: "courses t = courses s" "fetchCourseById i t = (r, s')"
    by blast
  from assms t(1) have "\<forall>c \<in> set (courses t). id_of c = i \<longrightarrow> isActive c \<noteq> Some True"
    by simp
  from fetchCourseById_inactive [OF this] t(2) have "r = Inl (not_found i)"
    by simp
  with retry show ?thesis
    by (simp add: coursesApi_getCourse_def not_found_def)
qed

lemma after_delete_inactive:
  assumes k: "k < length xs" "id_of (xs ! k) = i"
    and one: "length (filter (\<lambda>c. id_of c = i) xs) = 1"
  shows "\<forall>c \<in> set (xs[k := (xs ! k)\<lparr>isActive := Some False\<rparr>]).
           id_of c = i \<longrightarrow> isActive c \<noteq> Some True"
proof (intro ballI impI)
  let ?d = "(xs ! k)\<lparr>isActive := Some False\<rparr>"
  fix c
  assume c: "c \<in> set (xs[k := ?d])" and i: "id_of c = i"
  from k one have "length (filter (\<lambda>c. id_of c = i) (xs[k := ?d])) = 1"
    by (simp add: filter_update_length)
  moreover from k(1) have "?d \<in> set (xs[k := ?d])"
    by (simp add: set_update_memI)
  moreover from k(2) have "id_of ?d = i" by simp
  ultimately have "c = ?d"
    using c i by (intro single_match [where P = "\<lambda>c. id_of c = i" and xs = "xs[k := ?d]"])
  then show "isActive c \<noteq> Some True" by simp
qed


lemma deleteCourse_courses_missing:
  assumes "i \<notin> set (map id_of (courses s))"
  shows "fst (coursesApi_deleteCourse i s) = Inl (not_found i) \<and>
         courses (snd (coursesApi_deleteCourse i s)) = courses s"
proof -
  obtain r s' where retry: "withRetry (apiClient_deleteCourse i) retryAttempts retryDelay s = (r, s')"
    by (cases "withRetry (apiClient_deleteCourse i) retryAttempts retryDelay s")
  have call: "r' = Inl (not_found i) \<and> courses t' = courses s"
    if "courses t = courses s" "apiClient_deleteCourse i t = (r', t')" for t r' t'
  proof -
    from that(1) assms have "i \<notin> set (map id_of (courses t))" by simp
    from deleteCourse_missing [OF this] that(2)
    have "r' = Inl (not_found i)" "t' = simulateNetworkDelay 600 t" by simp_all
    with that(1) show ?thesis by (simp add: simulateNetworkDelay_def timer_delay_def)
  qed
  have "\<exists>t. courses t = courses s \<and> apiClient_deleteCourse i t = (r, s')"
  proof (rule withRetry_result [where I = "\<lambda>t. courses t = courses s"
        and operation = "apiClient_deleteCourse i"])
    show "courses t' = courses s"
      if "courses t = courses s" "apiClient_deleteCourse i t = (r', t')" for t r' t'
      using call [OF that] by simp
    show "courses (backoff_wait ms t) = courses s" if "courses t = courses s" for t ms
      using that by simp
    show "courses s = courses s" by simp
    show "1 \<le> retryAttempts" by (simp add: retryAttempts_def)
    show "withRetry (apiClient_deleteCourse i) retryAttempts retryDelay s = (r, s')"
      by (rule retry)
  qed
  then obtain t where "courses t = courses s" "apiClient_deleteCourse i t = (r, s')"
    by blast
  from call [OF this] retry show ?thesis
    by (simp add: coursesApi_deleteCourse_def not_found_def)
qed

text \<open>
  Where exactly one record has the identifier, a deletion behaves as soft deletion should.
  A deletion of an identifier that no record has fails with the not-found error and
  leaves the store as it was. Otherwise it returns \<open>true\<close> and sets \<open>isActive\<close> to
  \<open>false\<close> on the first record with the identifier; every record stays in the store,
  and when no other record has the identifier, \<open>getCourse\<close> of it fails with the
  not-found error afterwards and no successful \<open>getCourses\<close> returns a record with it.
\<close>

lemma deleteCourse_single_match:
  "(i \<notin> set (map id_of (courses s)) \<longrightarrow>
      apiClient_deleteCourse i s = (Inl (not_found i), simulateNetworkDelay 600 s)
      \<and> fst (coursesApi_deleteCourse i s) = Inl (not_found i)
      \<and> courses (snd (coursesApi_deleteCourse i s)) = courses s)
   \<and> (i \<in> set (map id_of (courses s)) \<longrightarrow>
      (\<exists>k s'.
         k < length (courses s) \<and> id_of (courses s ! k) = i
         \<and> (\<forall>j < k. id_of (courses s ! j) \<noteq> i)
         \<and> apiClient_deleteCourse i s =
             (Inr \<lparr>data = True, success = True, message = ''Course deleted successfully''\<rparr>, s')
         \<and> coursesApi_deleteCourse i s = (Inr True, s')
         \<and> courses s' = (courses s)[k := (courses s ! k)\<lparr>isActive := Some False\<rparr>]
         \<and> length (courses s') = length (courses s)
         \<and> (length (filter (\<lambda>c. id_of c = i) (courses s)) = 1 \<longrightarrow>
              fst (coursesApi_getCourse i s') = Inl (not_found i)
              \<and> (\<forall>cs t. coursesApi_getCourses s' = (Inr cs, t) \<longrightarrow>
                    i \<notin> set (map id_of cs)))))"
proof (intro conjI impI)
  assume missing: "i \<notin> set (map id_of (courses s))"
  show "apiClient_deleteCourse i s = (Inl (not_found i), simulateNetworkDelay 600 s)"
    by (rule deleteCourse_missing [OF missing])
  show "fst (coursesApi_deleteCourse i s) = Inl (not_found i)"
    and "courses (snd (coursesApi_deleteCourse i s)) = courses s"
    using deleteCourse_courses_missing [OF missing] by simp_all
next
  assume "i \<in> set (map id_of (courses s))"
  then have "\<exists>x \<in> set (courses s). id_of x = i" by auto
  from findIndex_present [of "courses s" "\<lambda>c. id_of c = i", OF this]
  obtain k where k: "findIndex (\<lambda>c. id_of c = i) (courses s) = Some k"
    by blast
  let ?xs' = "(courses s)[k := (courses s ! k)\<lparr>isActive := Some False\<rparr>]"
  let ?s' = "(simulateNetworkDelay 600 s)\<lparr>courses := ?xs'\<rparr>"
  note first = findIndex_Some [OF k]
  have client: "apiClient_deleteCourse i s =
      (Inr \<lparr>data = True, success = True, message = ''Course deleted successfully''\<rparr>, ?s')"
    by (rule deleteCourse_found [OF k])
  have public: "coursesApi_deleteCourse i s = (Inr True, ?s')"
    by (simp add: coursesApi_deleteCourse_def
        withRetry_first_success [where operation = "apiClient_deleteCourse i", OF client])
  have store: "courses ?s' = ?xs'" by simp
  have after: "fst (coursesApi_getCourse i ?s') = Inl (not_found i)
      \<and> (\<forall>cs t. coursesApi_getCourses ?s' = (Inr cs, t) \<longrightarrow> i \<notin> set (map id_of cs))"
    if one: "length (filter (\<lambda>c. id_of c = i) (courses s)) = 1"
  proof -
    from first one
    have inactive: "\<forall>c \<in> set (courses ?s'). id_of c = i \<longrightarrow> isActive c \<noteq> Some True"
      unfolding store by (intro after_delete_inactive) simp_all
    have "i \<notin> set (map id_of cs)" if "coursesApi_getCourses ?s' = (Inr cs, t)" for cs t
      using getCourses_success [OF that] inactive by auto
    with getCourse_inactive [OF inactive] show ?thesis by blast
  qed
  show "\<exists>k s'.
         k < length (courses s) \<and> id_of (courses s ! k) = i
         \<and> (\<forall>j < k. id_of (courses s ! j) \<noteq> i)
         \<and> apiClient_deleteCourse i s =
             (Inr \<lparr>data = True, success = True, message = ''Course deleted successfully''\<rparr>, s')
         \<and> coursesApi_deleteCourse i s = (Inr True, s')
         \<and> courses s' = (courses s)[k := (courses s ! k)\<lparr>isActive := Some False\<rparr>]
         \<and> length (courses s') = length (courses s)
         \<and> (length (filter (\<lambda>c. id_of c = i) (courses s)) = 1 \<longrightarrow>
              fst (coursesApi_getCourse i s') = Inl (not_found i)
              \<and> (\<forall>cs t. coursesApi_getCourses s' = (Inr cs, t) \<longrightarrow>
                    i \<notin> set (map id_of cs)))"
    apply (rule exI [of _ k], rule exI [of _ ?s'])
    using first client public after apply (simp add: simulateNetworkDelay_def timer_delay_def)
    done
qed

text \<open>Identifiers are unique as long as no update supplies one: then one record matches.\<close>

lemma distinct_single_match:
  "distinct (map id_of cs) \<Longrightarrow> i \<in> set (map id_of cs) \<Longrightarrow>
   length (filter (\<lambda>c. id_of c = i) cs) = 1"
proof (induction cs)
  case Nil
  then show ?case by simp
next
  case (Cons c cs)
  show ?case
  proof (cases "id_of c = i")
    case True
    with Cons.prems(1) have "\<forall>x \<in> set cs. id_of x \<noteq> i" by (auto simp: image_iff)
    then have "filter (\<lambda>c. id_of c = i) cs = []" by (simp add: filter_empty_conv)
    with True show ?thesis by simp
  next
    case False
    with Cons show ?thesis by auto
  qed
qed

lemma deleteCourse_distinct_ids:
  assumes "distinct (map id_of (courses s))" "i \<in> set (map id_of (courses s))"
  shows "\<exists>k s'.
     k < length (courses s) \<and> id_of (courses s ! k) = i
     \<and> coursesApi_deleteCourse i s = (Inr True, s')
     \<and> courses s' = (courses s)[k := (courses s ! k)\<lparr>isActive := Some False\<rparr>]
     \<and> fst (coursesApi_getCourse i s') = Inl (not_found i)
     \<and> (\<forall>cs t. coursesApi_getCourses s' = (Inr cs, t) \<longrightarrow> i \<notin> set (map id_of cs))"
  using deleteCourse_single_match [where i = i and s = s, THEN conjunct2, THEN mp, OF assms(2)]
    distinct_single_match [OF assms]
  by blast

text \<open>Deleting course 3 of the seeded store.\<close>

lemma deleteCourse_seed:
  "Num 3 \<in> set (map id_of (courses (initial_world no_faults))) \<and>
   length (filter (\<lambda>c. id_of c = Num 3) (courses (initial_world no_faults))) = 1 \<and>
   fst (coursesApi_deleteCourse (Num 3) (initial_world no_faults)) = Inr True \<and>
   map isActive (courses (snd (coursesApi_deleteCourse (Num 3) (initial_world no_faults)))) =
     [Some True, Some True, Some False, Some True, Some True] \<and>
   fst (coursesApi_getCourse (Num 3)
         (snd (coursesApi_deleteCourse (Num 3) (initial_world no_faults)))) =
     Inl (NetworkError ''Course with ID 3 not found'' (Num 404)) \<and>
   \<not> isl (fst (coursesApi_getCourses
         (snd (coursesApi_deleteCourse (Num 3) (initial_world no_faults))))) \<and>
   Num 3 \<notin> set (map id_of (projr (fst (coursesApi_getCourses
         (snd (coursesApi_deleteCourse (Num 3) (initial_world no_faults)))))))"
proof -
  let ?s = "initial_world no_faults"
  have present: "Num 3 \<in> set (map id_of (courses ?s))"
    by (simp add: seed_courses_def)
  have one: "length (filter (\<lambda>c. id_of c = Num 3) (courses ?s)) = 1"
    by (simp add: seed_courses_def)
  have numeral: "String_number (Num 3) = ''3''"
    by code_simp
  from deleteCourse_single_match [where i = "Num 3" and s = ?s, THEN conjunct2, THEN mp, OF present]
  obtain k s' where k: "k < length (courses ?s)" "id_of (courses ?s ! k) = Num 3"
    and call: "coursesApi_deleteCourse (Num 3) ?s = (Inr True, s')"
    and store: "courses s' = (courses ?s)[k := (courses ?s ! k)\<lparr>isActive := Some False\<rparr>]"
    and after: "length (filter (\<lambda>c. id_of c = Num 3) (courses ?s)) = 1 \<longrightarrow>
              fst (coursesApi_getCourse (Num 3) s') = Inl (not_found (Num 3))
              \<and> (\<forall>cs t. coursesApi_getCourses s' = (Inr cs, t) \<longrightarrow>
                    Num 3 \<notin> set (map id_of cs))"
    by blast
  from k seed_index [of k] have "k = 2" by simp
  with store have flags: "map isActive (courses s') =
      [Some True, Some True, Some False, Some True, Some True]"
    by (simp add: seed_courses_def)
  have s': "snd (coursesApi_deleteCourse (Num 3) ?s) = s'"
    using call by simp
  have listed: "\<not> isl (fst (coursesApi_getCourses (snd (coursesApi_deleteCourse (Num 3) ?s))))"
    by code_simp
  then obtain cs t where cs: "coursesApi_getCourses s' = (Inr cs, t)"
    unfolding s' by (cases "coursesApi_getCourses s'"; cases "fst (coursesApi_getCourses s')") auto
  with after one have "Num 3 \<notin> set (map id_of cs)" by blast
  with cs have excluded: "Num 3 \<notin> set (map id_of (projr (fst (coursesApi_getCourses s'))))"
    by simp
  from after one have "fst (coursesApi_getCourse (Num 3) s') =
      Inl (NetworkError ''Course with ID 3 not found'' (Num 404))"
    by (simp add: not_found_def numeral del: String_number.simps)
  with present one call flags listed excluded show ?thesis
    unfolding s' by simp
qed

text \<open>
  C8. The code does not keep what the claim says once a public update has rewritten an
  identifier. From the seeded store, \<open>updateCourse(2, {id: 1})\<close> leaves two records with
  the identifier 1; \<open>deleteCourse(1)\<close> then returns \<open>true\<close> and deactivates the first of
  them only, after which \<open>getCourse(1)\<close> does not fail and \<open>getCourses()\<close> still returns a
  record with the identifier 1.
\<close>

theorem deleteCourse_duplicate_id:
  "map id_of (courses renumbered_store) = [Num 1, Num 1, Num 3, Num 4, Num 5] \<and>
   fst (coursesApi_deleteCourse (Num 1) renumbered_store) = Inr True \<and>
   \<not> isl (fst (coursesApi_getCourse (Num 1)
              (snd (coursesApi_deleteCourse (Num 1) renumbered_store)))) \<and>
   map id_of (projr (fst (coursesApi_getCourses
              (snd (coursesApi_deleteCourse (Num 1) renumbered_store))))) =
     [Num 1, Num 3, Num 4, Num 5]"
  by code_simp

end
